theory Spec2Isabelle
  imports Main "HOL-Library.AList"
begin

section \<open>The front end of the proxy (main.py)\<close>

text \<open>
  The front end is one Python 2 module: the command line parser \<open>get_args\<close>, the two
  builders \<open>build_local_proxy\<close> and \<open>build_lambda_proxy\<close>, the request handler class made by
  \<open>build_handler\<close>, and \<open>main\<close>. The handler talks to three collaborators: the
  \<open>ProxyInstance\<close> (request, connect, stream), the statistics model (record_bytes_up,
  record_bytes_down, record_delay) and its own base class \<open>BaseHTTPRequestHandler\<close>
  (send_response, send_header, end_headers, send_error, the files rfile and wfile).

  A run of a handler method is modelled by the list of calls it makes on these
  collaborators, in program order, together with the exception that leaves the method, if
  one does. What a collaborator answers (the backend's response, the socket or the
  exception of connect) is a parameter of the model. Writing to the client is taken to
  succeed.
\<close>

subsection \<open>Exceptions\<close>

text \<open>
  \<open>ValueError\<close> is what the unpacking \<open>host, port = ...\<close> raises, \<open>SystemExit\<close> what
  \<open>sys.exit\<close> raises. A collaborator that fails raises an instance of \<open>Exception\<close>,
  given by its message; \<open>Error\<close> is such an exception on its way out of a method. The
  clauses \<open>except Exception, e\<close> of the handler catch it. An exception outside that class
  (KeyboardInterrupt) thrown inside a collaborator is not part of the model.
\<close>

datatype exn =
    ValueError
  | SystemExit int
  | Error string

subsection \<open>Strings\<close>

text \<open>\<open>str.upper\<close> on a byte string: the letters a to z are mapped to A to Z.\<close>

definition upper_char :: "char \<Rightarrow> char" where
  "upper_char c =
     (let n = (of_char c :: nat)
      in if 97 \<le> n \<and> n \<le> 122 then char_of (n - 32) else c)"

definition upper :: "string \<Rightarrow> string" where
  "upper s = map upper_char s"

text \<open>
  \<open>s.split(sep)\<close> for a one-character separator: the pieces between the occurrences of
  the separator, one more piece than there are occurrences. The second case of the
  \<open>case\<close> is never taken (the result of \<open>split\<close> is never empty).
\<close>

fun split_str :: "char \<Rightarrow> string \<Rightarrow> string list" where
  "split_str sep [] = [[]]"
| "split_str sep (c # cs) =
     (if c = sep then [] # split_str sep cs
      else (case split_str sep cs of
              p # ps \<Rightarrow> (c # p) # ps
            | [] \<Rightarrow> [[c]]))"

subsection \<open>The handler's collaborators\<close>

text \<open>
  The fields of the handler object that the two methods read: \<open>self.command\<close>,
  \<open>self.path\<close>, \<open>self.headers\<close> (a dictionary, given as its items in iteration order),
  what \<open>self.rfile.read()\<close> returns (the call is taken to return), and what
  \<open>self.version_string()\<close> returns.
\<close>

record handler =
  self_command :: string
  self_path :: string
  self_headers :: "(string \<times> string) list"
  self_rfile :: string
  self_version_string :: string

text \<open>The response object of the request backend.\<close>

record response =
  statusCode :: int
  headers :: "(string \<times> string) list"
  content :: string

text \<open>
  The \<open>ProxyInstance\<close> as the handler sees it. Each operation returns a value or raises
  (\<open>Inl\<close> of the message): \<open>request(method, url, headers, body)\<close> returns a response,
  \<open>connect(host, port)\<close> a socket (a number names it), \<open>stream(connection, sock)\<close>
  returns nothing (\<open>None\<close>) or raises (\<open>Some\<close> of the message).
\<close>

record proxy =
  request :: "string \<Rightarrow> string \<Rightarrow> (string \<times> string) list \<Rightarrow> string option \<Rightarrow> string + response"
  connect :: "string \<Rightarrow> string \<Rightarrow> string + nat"
  stream :: "nat \<Rightarrow> string option"

text \<open>The calls a handler method makes, one constructor for each.\<close>

datatype event =
    PrintRequest
  | PrintResponse
  | RecordDelayEnter
  | RecordDelayExit
  | RecordBytesUp nat
  | RecordBytesDown nat
  | ProxyRequest string string "(string \<times> string) list" "string option"
  | ProxyConnect string string
  | ProxyStream nat
  | SockClose nat
  | LoggerException string
  | SendResponse int
  | SendHeader string string
  | EndHeaders
  | SendError int
  | WfileWrite string

subsection \<open>The method \<open>_proxy_request\<close>\<close>

definition OVERRIDE_USER_AGENT :: bool where
  "OVERRIDE_USER_AGENT = False"

text \<open>
  The loop over the request headers (lines 193 to 198): every header adds to the
  approximate length, and is copied into the dictionary \<open>headers\<close> unless its name is in
  \<open>FILTERED_REQUEST_HEADERS\<close>. The set is imported from lib.headers and is a parameter
  here. The loop reads \<open>self.headers[header]\<close> for each key \<open>header\<close> of the dictionary,
  that is, it visits the items.
\<close>

fun request_header_loop ::
  "string set \<Rightarrow> (string \<times> string) list \<Rightarrow> nat \<times> (string \<times> string) list
     \<Rightarrow> nat \<times> (string \<times> string) list" where
  "request_header_loop frh [] (approxRequestLen, hdrs) = (approxRequestLen, hdrs)"
| "request_header_loop frh ((header, val) # rest) (approxRequestLen, hdrs) =
     (let approxRequestLen' = approxRequestLen + (length header + length val + 4)
      in if header \<in> frh
         then request_header_loop frh rest (approxRequestLen', hdrs)
         else request_header_loop frh rest (approxRequestLen', AList.update header val hdrs))"

text \<open>
  The loop over the response headers (lines 219 to 223): a header whose name is in
  \<open>FILTERED_RESPONSE_HEADERS\<close> is skipped; for any other, \<open>approxResponseLen\<close> is assigned
  (not increased) and the header is sent.
\<close>

fun response_header_loop ::
  "string set \<Rightarrow> (string \<times> string) list \<Rightarrow> nat \<times> event list \<Rightarrow> nat \<times> event list" where
  "response_header_loop fresph [] (approxResponseLen, sent) = (approxResponseLen, sent)"
| "response_header_loop fresph ((header, val) # rest) (approxResponseLen, sent) =
     (if header \<in> fresph
      then response_header_loop fresph rest (approxResponseLen, sent)
      else response_header_loop fresph rest
             (length header + length val + 4, sent @ [SendHeader header val]))"

text \<open>
  The body of the method (lines 183 to 229). \<open>frh\<close> and \<open>fresph\<close> are the two sets of
  lib.headers, \<open>ua\<close> is what \<open>get_user_agent()\<close> returns.
\<close>

definition proxy_request_body ::
  "string set \<Rightarrow> string set \<Rightarrow> bool \<Rightarrow> string \<Rightarrow> proxy \<Rightarrow> handler \<Rightarrow> event list \<times> exn option" where
  "proxy_request_body frh fresph verbose ua prx self =
     (let printed = (if verbose then [PrintRequest] else []);
          method = upper (self_command self);
          url = self_path self;
          approxRequestLen0 = 2 + length url + length method + length (self_version_string self);
          (approxRequestLen1, hdrs0) =
             request_header_loop frh (self_headers self) (approxRequestLen0, []);
          hdrs1 = AList.update ''Connection'' ''close'' hdrs0;
          hdrs = (if OVERRIDE_USER_AGENT then AList.update ''User-Agent'' ua hdrs1 else hdrs1);
          (requestBody, approxRequestLen) =
             (if method \<noteq> ''GET''
              then (Some (self_rfile self), approxRequestLen1 + length (self_rfile self))
              else (None, approxRequestLen1));
          called = printed @ [RecordBytesUp approxRequestLen, ProxyRequest method url hdrs requestBody]
      in case request prx method url hdrs requestBody of
           Inl e \<Rightarrow> (called, Some (Error e))
         | Inr resp \<Rightarrow>
             (let (approxResponseLen, sent) = response_header_loop fresph (headers resp) (20, [])
              in (called @ (if verbose then [PrintResponse] else [])
                    @ [SendResponse (statusCode resp)] @ sent
                    @ [SendHeader ''Proxy-Connection'' ''close'', EndHeaders,
                       WfileWrite (content resp),
                       RecordBytesDown (approxResponseLen + length (content resp))],
                  None)))"

text \<open>
  Modelled from the spec: the decorator \<open>log_request_delay\<close> runs the method inside
  \<open>with proxyStats.record_delay()\<close>, whose code (lib.stats) is not part of the sources; the
  spec calls it a scoped timer with guaranteed stop on exit, on the success and on the
  failure path. So the timer is entered before the body and left after it, and an
  exception of the body goes on.
\<close>

definition proxy_request ::
  "string set \<Rightarrow> string set \<Rightarrow> bool \<Rightarrow> string \<Rightarrow> proxy \<Rightarrow> handler \<Rightarrow> event list \<times> exn option" where
  "proxy_request frh fresph verbose ua prx self =
     (case proxy_request_body frh fresph verbose ua prx self of
        (tr, r) \<Rightarrow> (RecordDelayEnter # tr @ [RecordDelayExit], r))"

subsection \<open>The method \<open>_connect_request\<close>\<close>

text \<open>
  Lines 232 to 254. The unpacking \<open>host, port = self.path.split(':')\<close> raises ValueError
  unless the split has exactly two pieces; nothing catches it. An exception of
  \<open>connect\<close> is logged and answered with \<open>send_error(520)\<close> and \<open>end_headers()\<close>; an
  exception of \<open>stream\<close> is logged and raised again, and the socket is closed on every way
  out of the second \<open>try\<close>.
\<close>

definition connect_request :: "bool \<Rightarrow> proxy \<Rightarrow> handler \<Rightarrow> event list \<times> exn option" where
  "connect_request verbose prx self =
     (let printed = (if verbose then [PrintRequest] else [])
      in case split_str CHR '':'' (self_path self) of
           [host, port] \<Rightarrow>
             (case connect prx host port of
                Inl e \<Rightarrow>
                  (printed @ [ProxyConnect host port, LoggerException e,
                              SendError 520, EndHeaders], None)
              | Inr sock \<Rightarrow>
                  (let established = printed @
                         [ProxyConnect host port, SendResponse 200,
                          SendHeader ''Proxy-Agent'' (self_version_string self),
                          SendHeader ''Proxy-Connection'' ''close'', EndHeaders,
                          ProxyStream sock]
                   in case stream prx sock of
                        None \<Rightarrow> (established @ [SockClose sock], None)
                      | Some e \<Rightarrow>
                          (established @ [LoggerException e, SockClose sock],
                           Some (Error e))))
         | _ \<Rightarrow> (printed, Some ValueError))"

subsection \<open>The table of methods\<close>


subsection \<open>Reading a run\<close>


fun is_send_response :: "event \<Rightarrow> bool" where
  "is_send_response (SendResponse code) = True"
| "is_send_response _ = False"

fun is_send_error :: "event \<Rightarrow> bool" where
  "is_send_error (SendError code) = True"
| "is_send_error _ = False"

fun is_proxy_request :: "event \<Rightarrow> bool" where
  "is_proxy_request (ProxyRequest method url hdrs body) = True"
| "is_proxy_request _ = False"

fun is_proxy_connect :: "event \<Rightarrow> bool" where
  "is_proxy_connect (ProxyConnect h p) = True"
| "is_proxy_connect _ = False"

fun is_proxy_stream :: "event \<Rightarrow> bool" where
  "is_proxy_stream (ProxyStream sock) = True"
| "is_proxy_stream _ = False"

fun is_record_bytes_up :: "event \<Rightarrow> bool" where
  "is_record_bytes_up (RecordBytesUp n) = True"
| "is_record_bytes_up _ = False"

fun is_record_bytes_down :: "event \<Rightarrow> bool" where
  "is_record_bytes_down (RecordBytesDown n) = True"
| "is_record_bytes_down _ = False"

fun is_wfile_write :: "event \<Rightarrow> bool" where
  "is_wfile_write (WfileWrite body) = True"
| "is_wfile_write _ = False"

text \<open>The arguments of the calls of \<open>proxy.request\<close> in a run, in order.\<close>

fun request_calls ::
  "event list \<Rightarrow> (string \<times> string \<times> (string \<times> string) list \<times> string option) list" where
  "request_calls [] = []"
| "request_calls (ProxyRequest method url hdrs body # tr) =
     (method, url, hdrs, body) # request_calls tr"
| "request_calls (e # tr) = request_calls tr"

text \<open>The headers the handler sends with \<open>send_header\<close>, in order.\<close>

fun sent_headers :: "event list \<Rightarrow> (string \<times> string) list" where
  "sent_headers [] = []"
| "sent_headers (SendHeader name val # tr) = (name, val) # sent_headers tr"
| "sent_headers (e # tr) = sent_headers tr"

text \<open>The arguments of the calls of \<open>record_bytes_down\<close>, in order.\<close>

fun bytes_down_calls :: "event list \<Rightarrow> nat list" where
  "bytes_down_calls [] = []"
| "bytes_down_calls (RecordBytesDown n # tr) = n # bytes_down_calls tr"
| "bytes_down_calls (e # tr) = bytes_down_calls tr"

text \<open>
  \<open>precedes P Q tr\<close>: every event of \<open>tr\<close> that satisfies \<open>Q\<close> comes strictly after an
  event that satisfies \<open>P\<close>.
\<close>

fun precedes :: "('a \<Rightarrow> bool) \<Rightarrow> ('a \<Rightarrow> bool) \<Rightarrow> 'a list \<Rightarrow> bool" where
  "precedes P Q [] = True"
| "precedes P Q (x # xs) = (\<not> Q x \<and> (P x \<or> precedes P Q xs))"

text \<open>A header that the response loop does not skip.\<close>

definition kept :: "string set \<Rightarrow> string \<times> string \<Rightarrow> bool" where
  "kept fresph hv = (fst hv \<notin> fresph)"

text \<open>What one response header adds to the approximate length (line 222).\<close>

definition header_len :: "string \<times> string \<Rightarrow> nat" where
  "header_len hv = length (fst hv) + length (snd hv) + 4"

section \<open>Start-up\<close>

subsection \<open>The arguments\<close>

text \<open>The namespace \<open>get_args\<close> returns, one field for each \<open>dest\<close>.\<close>

record args =
  port :: int
  host :: string
  runLocal :: bool
  "functions" :: "string list"
  lambdaType :: string
  largeTransport :: string
  s3Bucket :: "string option"
  maxLambdas :: int
  enableMitm :: bool
  verbose :: bool

definition DEFAULT_PORT :: int where
  "DEFAULT_PORT = 1080"

definition DEFAULT_MAX_LAMBDAS :: int where
  "DEFAULT_MAX_LAMBDAS = 10"

definition MITM_CERT_PATH :: string where
  "MITM_CERT_PATH = ''mitm.ca.pem''"

definition MITM_KEY_PATH :: string where
  "MITM_KEY_PATH = ''mitm.key.pem''"

text \<open>
  The parser is the standard library's argparse. It first stores the default of every
  argument in the namespace, then runs the action of each option that occurs on the
  command line, from left to right: \<open>store\<close> replaces the value, \<open>store_true\<close> sets it,
  and \<open>append\<close> copies the list that is there and adds the value at its end. A value that
  is not among the \<open>choices\<close> of its argument ends the program with status 2. An accepted
  command line is given here as the list of its option occurrences, values converted.
\<close>

datatype cli_opt =
    OptPort int
  | OptHost string
  | OptLocal
  | OptFunction string
  | OptLambdaType string
  | OptLargeTransport string
  | OptS3Bucket string
  | OptMaxLambdas int
  | OptEnableMitm
  | OptVerbose

definition default_args :: args where
  "default_args =
     \<lparr>port = DEFAULT_PORT, host = ''localhost'', runLocal = False,
      functions = [''simple-http-proxy''], lambdaType = ''hybrid'',
      largeTransport = ''sqs'', s3Bucket = None, maxLambdas = DEFAULT_MAX_LAMBDAS,
      enableMitm = False, verbose = False\<rparr>"

fun apply_opt :: "cli_opt \<Rightarrow> args \<Rightarrow> exn + args" where
  "apply_opt (OptPort n) a = Inr (a\<lparr>port := n\<rparr>)"
| "apply_opt (OptHost s) a = Inr (a\<lparr>host := s\<rparr>)"
| "apply_opt OptLocal a = Inr (a\<lparr>runLocal := True\<rparr>)"
| "apply_opt (OptFunction f) a = Inr (a\<lparr>functions := functions a @ [f]\<rparr>)"
| "apply_opt (OptLambdaType t) a =
     (if t \<in> set [''short'', ''long'', ''hybrid'']
      then Inr (a\<lparr>lambdaType := t\<rparr>) else Inl (SystemExit 2))"
| "apply_opt (OptLargeTransport t) a =
     (if t \<in> set [''s3'', ''sqs'']
      then Inr (a\<lparr>largeTransport := t\<rparr>) else Inl (SystemExit 2))"
| "apply_opt (OptS3Bucket b) a = Inr (a\<lparr>s3Bucket := Some b\<rparr>)"
| "apply_opt (OptMaxLambdas n) a = Inr (a\<lparr>maxLambdas := n\<rparr>)"
| "apply_opt OptEnableMitm a = Inr (a\<lparr>enableMitm := True\<rparr>)"
| "apply_opt OptVerbose a = Inr (a\<lparr>verbose := True\<rparr>)"

fun parse_opts :: "cli_opt list \<Rightarrow> args \<Rightarrow> exn + args" where
  "parse_opts [] a = Inr a"
| "parse_opts (opt # opts) a =
     (case apply_opt opt a of
        Inl e \<Rightarrow> Inl e
      | Inr a' \<Rightarrow> parse_opts opts a')"

definition get_args :: "cli_opt list \<Rightarrow> exn + args" where
  "get_args opts = parse_opts opts default_args"

subsection \<open>Building the proxy\<close>

text \<open>
  The objects the builders construct, one constructor for each class, with the
  arguments of the constructor call in the order of the source. \<open>'s\<close> is the type of the
  \<open>Stats\<close> object.
\<close>

datatype 's proxy_obj =
    LocalProxy 's
  | ShortLivedLambdaProxy "string list" int "string option" 's
  | LongLivedLambdaProxy "string list" int "string option" 's bool
  | HybridLambdaProxy "string list" int "string option" 's bool
  | MitmHttpsProxy "'s proxy_obj" string string 's bool bool

datatype 's proxy_instance =
  ProxyInstance (requestProxy: "'s proxy_obj") (streamProxy: "'s proxy_obj")

text \<open>\<open>sep.join(xs)\<close>.\<close>

fun join :: "string \<Rightarrow> string list \<Rightarrow> string" where
  "join sep [] = []"
| "join sep [x] = x"
| "join sep (x # y # ys) = x @ sep @ join sep (y # ys)"

text \<open>
  Both builders return the lines they print and the \<open>ProxyInstance\<close>, or the exception
  that leaves them.
\<close>

definition build_local_proxy :: "args \<Rightarrow> 's \<Rightarrow> string list \<times> (exn + 's proxy_instance)" where
  "build_local_proxy a stats =
     (let localProxy = LocalProxy stats
      in if enableMitm a
         then ([''  Running the proxy locally. This provides no privacy!'',
                ''  MITM proxy enabled''],
               Inr (ProxyInstance localProxy
                      (MitmHttpsProxy localProxy MITM_CERT_PATH MITM_KEY_PATH stats
                         OVERRIDE_USER_AGENT (verbose a))))
         else ([''  Running the proxy locally. This provides no privacy!''],
               Inr (ProxyInstance localProxy localProxy)))"

definition build_lambda_proxy :: "args \<Rightarrow> 's \<Rightarrow> string list \<times> (exn + 's proxy_instance)" where
  "build_lambda_proxy a stats =
     (let functions' = functions a;
          lambdaType' = lambdaType a;
          maxLambdas' = maxLambdas a;
          s3Bucket' = s3Bucket a;
          verbose' = verbose a
      in if functions' = []
         then ([''  Running the proxy with lambda'', ''No functions specified''],
               Inl (SystemExit (- 1)))
         else
           (let (line, lambdaProxy) =
                  (if lambdaType' = ''short''
                   then (''  Using short-lived lambdas'',
                         ShortLivedLambdaProxy functions' maxLambdas' s3Bucket' stats)
                   else if lambdaType' = ''long''
                   then (''  Using long-lived lambdas'',
                         LongLivedLambdaProxy functions' maxLambdas' s3Bucket' stats verbose')
                   else (''  Using hybrid lambdas'',
                         HybridLambdaProxy functions' maxLambdas' s3Bucket' stats verbose'));
                printed = [''  Running the proxy with lambda'',
                           ''  Using functions: '' @ join '', '' functions', line]
            in if enableMitm a
               then (printed,
                     Inr (ProxyInstance lambdaProxy
                            (MitmHttpsProxy lambdaProxy MITM_CERT_PATH MITM_KEY_PATH stats
                               OVERRIDE_USER_AGENT verbose')))
               else (printed @ [''  HTTPS will use the local proxy''],
                     Inr (ProxyInstance lambdaProxy (LocalProxy stats)))))"

text \<open>The \<open>s3Bucket\<close> argument of the call that constructed a lambda proxy.\<close>

fun constructed_s3Bucket :: "'s proxy_obj \<Rightarrow> string option option" where
  "constructed_s3Bucket (ShortLivedLambdaProxy fs n b st) = Some b"
| "constructed_s3Bucket (LongLivedLambdaProxy fs n b st v) = Some b"
| "constructed_s3Bucket (HybridLambdaProxy fs n b st v) = Some b"
| "constructed_s3Bucket (LocalProxy st) = None"
| "constructed_s3Bucket (MitmHttpsProxy p c k st u v) = None"

subsection \<open>\<open>main\<close>\<close>

text \<open>
  What \<open>main\<close> does, as the list of its steps. \<open>NewServer\<close> is the construction of the
  listener, \<open>ServeForever\<close> its start; \<open>serve_forever\<close> does not return, so a run that
  reaches it ends there.
\<close>

datatype 's startup_event =
    RegisterModel string
  | Print string
  | BuildHandler "'s proxy_instance" bool
  | NewServer string int
  | StartLiveSummary
  | ServeForever

fun is_listener_event :: "'s startup_event \<Rightarrow> bool" where
  "is_listener_event (NewServer h p) = True"
| "is_listener_event ServeForever = True"
| "is_listener_event _ = False"

text \<open>\<open>stats\<close> is the object \<open>Stats()\<close> returns.\<close>

definition main :: "'s \<Rightarrow> string \<Rightarrow> int \<Rightarrow> args \<Rightarrow> 's startup_event list \<times> exn option" where
  "main stats host' port' a =
     (let started = [RegisterModel ''proxy'', Print ''Configuring proxy''];
          (printed, built) =
             (if runLocal a then build_local_proxy a stats else build_lambda_proxy a stats)
      in case built of
           Inl e \<Rightarrow> (started @ map Print printed, Some e)
         | Inr prx \<Rightarrow>
             (started @ map Print printed @
                [BuildHandler prx (verbose a), NewServer host' port',
                 Print ''Starting proxy, use <Ctrl-C> to stop'', StartLiveSummary,
                 ServeForever],
              None))"

text \<open>The script (lines 289 to 291): parse the command line, then run \<open>main\<close>.\<close>

definition script :: "'s \<Rightarrow> cli_opt list \<Rightarrow> 's startup_event list \<times> exn option" where
  "script stats opts =
     (case get_args opts of
        Inl e \<Rightarrow> ([], Some e)
      | Inr a \<Rightarrow> main stats (host a) (port a) a)"

section \<open>Example requests\<close>

text \<open>A POST request with a body, one header to forward and one proxy header.\<close>

definition post_handler :: handler where
  "post_handler =
     \<lparr>self_command = ''POST'', self_path = ''http://example.com/form'',
      self_headers = [(''host'', ''example.com''), (''proxy-connection'', ''keep-alive'')],
      self_rfile = ''a=1'', self_version_string = ''BaseHTTP/0.3 Python/2.7''\<rparr>"

text \<open>The same request as a GET.\<close>

definition get_handler :: handler where
  "get_handler = post_handler\<lparr>self_command := ''GET'', self_rfile := []\<rparr>"

text \<open>A response with two headers to return and one hop-by-hop header.\<close>

definition page :: response where
  "page =
     \<lparr>statusCode = 200,
      headers = [(''content-type'', ''text/html''), (''etag'', ''abc''),
                 (''transfer-encoding'', ''chunked'')],
      content = ''hello''\<rparr>"

text \<open>A proxy whose backend answers every request with the page and whose connect succeeds.\<close>

definition serving_proxy :: proxy where
  "serving_proxy =
     \<lparr>request = (\<lambda>method url hdrs body. Inr page),
      connect = (\<lambda>h p. Inr 7),
      stream = (\<lambda>sock. None)\<rparr>"

text \<open>A proxy whose backend and whose connect both fail.\<close>

definition refusing_proxy :: proxy where
  "refusing_proxy =
     \<lparr>request = (\<lambda>method url hdrs body. Inl ''unreachable''),
      connect = (\<lambda>h p. Inl ''refused''),
      stream = (\<lambda>sock. None)\<rparr>"

text \<open>A CONNECT request for a host and a port.\<close>

definition connect_handler :: handler where
  "connect_handler =
     \<lparr>self_command = ''CONNECT'', self_path = ''example.com:443'',
      self_headers = [(''host'', ''example.com:443'')],
      self_rfile = [], self_version_string = ''BaseHTTP/0.3 Python/2.7''\<rparr>"

text \<open>A CONNECT request for a bare host name.\<close>

definition bare_connect_handler :: handler where
  "bare_connect_handler = connect_handler\<lparr>self_path := ''example.com''\<rparr>"

text \<open>A CONNECT request for an IPv6 literal and a port.\<close>

definition ipv6_connect_handler :: handler where
  "ipv6_connect_handler = connect_handler\<lparr>self_path := ''[::1]:443''\<rparr>"

section \<open>Properties\<close>

lemma split_str_not_Nil: "split_str sep s \<noteq> []"
  by (induction s) (auto split: list.splits)

lemma length_split_str: "length (split_str sep s) = Suc (count_list s sep)"
  by (induction s) (auto split: list.splits simp: split_str_not_Nil)

lemma request_calls_append: "request_calls (xs @ ys) = request_calls xs @ request_calls ys"
  by (induction xs rule: request_calls.induct) auto

lemma sent_headers_append: "sent_headers (xs @ ys) = sent_headers xs @ sent_headers ys"
  by (induction xs rule: sent_headers.induct) auto

lemma bytes_down_calls_append: "bytes_down_calls (xs @ ys) = bytes_down_calls xs @ bytes_down_calls ys"
  by (induction xs rule: bytes_down_calls.induct) auto

lemma response_header_loop_sent:
  "snd (response_header_loop fresph hs (n, sent)) =
     sent @ map (\<lambda>hv. SendHeader (fst hv) (snd hv)) (filter (kept fresph) hs)"
  by (induction hs arbitrary: n sent) (auto simp: kept_def)

lemma response_header_loop_len:
  "fst (response_header_loop fresph hs (n, sent)) =
     (if filter (kept fresph) hs = [] then n else header_len (last (filter (kept fresph) hs)))"
  by (induction hs arbitrary: n sent) (auto simp: kept_def header_len_def)

lemma request_header_loop_map:
  "distinct (map fst hs) \<Longrightarrow>
   map_of (snd (request_header_loop frh hs (n, acc))) = map_of acc ++ (map_of hs |` (- frh))"
proof (induction hs arbitrary: n acc)
  case Nil
  then show ?case by simp
next
  case (Cons hv hs)
  obtain h v where hv: "hv = (h, v)" by (cases hv)
  from Cons.prems hv have d: "distinct (map fst hs)" and nin: "h \<notin> fst ` set hs" by auto
  let ?n = "n + (length h + length v + 4)"
  show ?case
  proof (cases "h \<in> frh")
    case True
    have "map_of (snd (request_header_loop frh (hv # hs) (n, acc))) =
          map_of (snd (request_header_loop frh hs (?n, acc)))"
      using True hv by (simp add: Let_def)
    also have "\<dots> = map_of acc ++ (map_of hs |` (- frh))"
      by (rule Cons.IH [OF d])
    also have "map_of hs |` (- frh) = map_of (hv # hs) |` (- frh)"
      using True hv by (auto simp: restrict_map_def fun_eq_iff)
    finally show ?thesis .
  next
    case False
    have none: "map_of hs h = None" using nin by (simp add: map_of_eq_None_iff)
    have "map_of (snd (request_header_loop frh (hv # hs) (n, acc))) =
          map_of (snd (request_header_loop frh hs (?n, AList.update h v acc)))"
      using False hv by (simp add: Let_def)
    also have "\<dots> = map_of (AList.update h v acc) ++ (map_of hs |` (- frh))"
      by (rule Cons.IH [OF d])
    also have "\<dots> = map_of acc ++ (map_of (hv # hs) |` (- frh))"
      using False hv none
      by (auto simp: update_conv' restrict_map_def fun_eq_iff map_add_def split: option.splits)
    finally show ?thesis .
  qed
qed

lemma request_calls_printed [simp]:
  "request_calls (if vb then [PrintRequest] else []) = []"
  "request_calls (if vb then [PrintResponse] else []) = []"
  by simp_all

lemma request_calls_SendHeaders [simp]:
  "request_calls (map (\<lambda>hv. SendHeader (fst hv) (snd hv)) hs) = []"
  by (induction hs) simp_all

lemma sent_headers_SendHeaders [simp]:
  "sent_headers (map (\<lambda>hv. SendHeader (fst hv) (snd hv)) hs) = hs"
  by (induction hs) simp_all

lemma bytes_down_calls_SendHeaders [simp]:
  "bytes_down_calls (map (\<lambda>hv. SendHeader (fst hv) (snd hv)) hs) = []"
  by (induction hs) simp_all

text \<open>The run of the body, with the two loops read off.\<close>

lemma proxy_request_body_run:
  fixes frh fresph vb ua prx self
  defines "m \<equiv> upper (self_command self)"
    and "u \<equiv> self_path self"
  defines "lp \<equiv> request_header_loop frh (self_headers self)
                   (2 + length u + length m + length (self_version_string self), [])"
  defines "hs \<equiv> AList.update ''Connection'' ''close'' (snd lp)"
    and "b \<equiv> (if m = ''GET'' then None else Some (self_rfile self))"
    and "n \<equiv> (if m = ''GET'' then fst lp else fst lp + length (self_rfile self))"
  defines "called \<equiv> (if vb then [PrintRequest] else []) @ [RecordBytesUp n, ProxyRequest m u hs b]"
  shows "proxy_request_body frh fresph vb ua prx self =
     (case request prx m u hs b of
        Inl e \<Rightarrow> (called, Some (Error e))
      | Inr resp \<Rightarrow>
          (called @ (if vb then [PrintResponse] else []) @ [SendResponse (statusCode resp)]
             @ map (\<lambda>hv. SendHeader (fst hv) (snd hv)) (filter (kept fresph) (headers resp))
             @ [SendHeader ''Proxy-Connection'' ''close'', EndHeaders,
                WfileWrite (content resp),
                RecordBytesDown
                  ((if filter (kept fresph) (headers resp) = [] then 20
                    else header_len (last (filter (kept fresph) (headers resp))))
                   + length (content resp))],
           None))"
proof -
  obtain n1 h0 where lp: "lp = (n1, h0)" by (cases lp)
  have lp': "request_header_loop frh (self_headers self)
               (2 + length (self_path self) + length (upper (self_command self))
                  + length (self_version_string self), []) = (n1, h0)"
    using lp by (simp add: lp_def m_def u_def)
  have rl: "response_header_loop fresph hs' (20, []) =
        (if filter (kept fresph) hs' = [] then 20 else header_len (last (filter (kept fresph) hs')),
         map (\<lambda>hv. SendHeader (fst hv) (snd hv)) (filter (kept fresph) hs'))" for hs'
    using response_header_loop_len [of fresph hs' 20 "[]"]
      response_header_loop_sent [of fresph hs' 20 "[]"]
    by (cases "response_header_loop fresph hs' (20, [])") simp
  show ?thesis
  proof (cases "m = ''GET''")
    case True
    then show ?thesis
      unfolding proxy_request_body_def OVERRIDE_USER_AGENT_def Let_def lp' rl
      by (simp add: hs_def b_def n_def called_def lp m_def u_def split: sum.splits)
  next
    case False
    then show ?thesis
      unfolding proxy_request_body_def OVERRIDE_USER_AGENT_def Let_def lp' rl
      by (simp add: hs_def b_def n_def called_def lp m_def u_def split: sum.splits)
  qed
qed

text \<open>What \<open>precedes\<close> says, by positions.\<close>

lemma precedes_iff:
  "precedes P Q tr \<longleftrightarrow> (\<forall>j < length tr. Q (tr ! j) \<longrightarrow> (\<exists>i < j. P (tr ! i)))"
proof (induction tr)
  case Nil
  then show ?case by simp
next
  case (Cons x xs)
  show ?case
  proof (cases "P x")
    case True
    then have "\<exists>i<j. P ((x # xs) ! i)" if "0 < j" for j
      using that by (intro exI [of _ 0]) simp
    then have "(\<forall>j < length (x # xs). Q ((x # xs) ! j) \<longrightarrow> (\<exists>i < j. P ((x # xs) ! i))) \<longleftrightarrow> \<not> Q x"
      by (metis length_Cons not_gr_zero nth_Cons_0 zero_less_Suc not_less_zero)
    with True show ?thesis by simp
  next
    case False
    have "(\<forall>j < length (x # xs). Q ((x # xs) ! j) \<longrightarrow> (\<exists>i < j. P ((x # xs) ! i))) \<longleftrightarrow>
          \<not> Q x \<and> (\<forall>j < length xs. Q (xs ! j) \<longrightarrow> (\<exists>i < j. P (xs ! i)))"
      (is "?L \<longleftrightarrow> _ \<and> ?R")
    proof (intro iffI conjI)
      assume l: ?L
      from l [rule_format, of 0] show "\<not> Q x" by auto
      show ?R
      proof (intro allI impI)
        fix j assume j: "j < length xs" "Q (xs ! j)"
        with l [rule_format, of "Suc j"] obtain i where i: "i < Suc j" "P ((x # xs) ! i)" by auto
        with False obtain i' where "i = Suc i'" by (cases i) auto
        with i show "\<exists>i<j. P (xs ! i)" by auto
      qed
    next
      assume r: "\<not> Q x \<and> ?R"
      show ?L
      proof (intro allI impI)
        fix j assume j: "j < length (x # xs)" "Q ((x # xs) ! j)"
        with r obtain j' where j': "j = Suc j'" by (cases j) auto
        with j r obtain i where "i < j'" "P (xs ! i)" by auto
        with j' show "\<exists>i<j. P ((x # xs) ! i)" by (intro exI [of _ "Suc i"]) simp
      qed
    qed
    with False Cons.IH show ?thesis by simp
  qed
qed

lemma precedes_SendHeaders [simp]:
  "precedes is_wfile_write is_record_bytes_down
     (map (\<lambda>hv. SendHeader (fst hv) (snd hv)) hs @ tr) =
   precedes is_wfile_write is_record_bytes_down tr"
  by (induction hs) simp_all

lemma precedes_up_SendHeaders [simp]:
  "precedes is_record_bytes_up is_proxy_request
     (map (\<lambda>hv. SendHeader (fst hv) (snd hv)) hs @ tr) =
   precedes is_record_bytes_up is_proxy_request tr"
  by (induction hs) simp_all

lemma list_ex_SendHeaders [simp]:
  "list_ex is_send_response (map (\<lambda>hv. SendHeader (fst hv) (snd hv)) hs) = False"
  "list_ex is_record_bytes_down (map (\<lambda>hv. SendHeader (fst hv) (snd hv)) hs) = False"
  "list_ex is_send_error (map (\<lambda>hv. SendHeader (fst hv) (snd hv)) hs) = False"
  by (induction hs) simp_all

lemma proxy_request_fst:
  "fst (proxy_request frh fresph vb ua prx self) =
     RecordDelayEnter # fst (proxy_request_body frh fresph vb ua prx self) @ [RecordDelayExit]"
  and proxy_request_snd:
  "snd (proxy_request frh fresph vb ua prx self) =
     snd (proxy_request_body frh fresph vb ua prx self)"
  by (simp_all add: proxy_request_def split: prod.splits)

text \<open>
  C7. The request backend is called once, with the upper-cased command, the path, the
  headers and the body. The body is \<open>None\<close> when the method is GET, and is what
  \<open>self.rfile.read()\<close> returned for every other method: the body is present if and only
  if the method is not GET.
\<close>

theorem request_body_iff_not_GET:
  "\<exists>hs. request_calls (fst (proxy_request frh fresph vb ua prx self)) =
     [(upper (self_command self), self_path self, hs,
       if upper (self_command self) = ''GET'' then None else Some (self_rfile self))]"
  by (simp add: proxy_request_fst proxy_request_body_run request_calls_append
        split: sum.splits)

text \<open>
  C2. The keys of the dictionary \<open>self.headers\<close> are distinct. The headers handed to the
  request backend are then, as a map, the client's headers without those whose name is in
  the filtered request set, with \<open>Connection: close\<close> added and nothing else. When the
  backend answers, the headers the handler sends are the headers of the response whose
  name is not in the filtered response set, in order, followed by the handler's own
  \<open>Proxy-Connection: close\<close>: no header of the response with a filtered name is sent.
\<close>

theorem headers_filtered:
  assumes "distinct (map fst (self_headers self))"
  shows "\<exists>m u hs b.
     request_calls (fst (proxy_request frh fresph vb ua prx self)) = [(m, u, hs, b)] \<and>
     map_of hs = (map_of (self_headers self) |` (- frh))(''Connection'' \<mapsto> ''close'') \<and>
     (\<forall>resp. request prx m u hs b = Inr resp \<longrightarrow>
        sent_headers (fst (proxy_request frh fresph vb ua prx self)) =
          filter (kept fresph) (headers resp) @ [(''Proxy-Connection'', ''close'')])"
  using request_header_loop_map [OF assms, of frh _ "[]"]
  by (auto simp add: proxy_request_fst proxy_request_body_run request_calls_append
        sent_headers_append update_conv' split: sum.splits)

text \<open>
  C4. In every run of the method, the backend's request operation is called, and every
  such call comes strictly after a call of \<open>record_bytes_up\<close>; every call of
  \<open>record_bytes_down\<close> comes strictly after the write of the response body to the client;
  and a run that ends without an exception has called \<open>record_bytes_down\<close>.
\<close>

theorem bytes_up_before_bytes_down_after:
  "precedes is_record_bytes_up is_proxy_request (fst (proxy_request frh fresph vb ua prx self)) \<and>
   list_ex is_proxy_request (fst (proxy_request frh fresph vb ua prx self)) \<and>
   precedes is_wfile_write is_record_bytes_down (fst (proxy_request frh fresph vb ua prx self)) \<and>
   (snd (proxy_request frh fresph vb ua prx self) = None \<longrightarrow>
      list_ex is_record_bytes_down (fst (proxy_request frh fresph vb ua prx self)))"
  by (simp add: proxy_request_fst proxy_request_snd proxy_request_body_run
        split: sum.splits)

text \<open>
  C8. When the backend answers the call the handler made, \<open>record_bytes_down\<close> is called
  once, with the length of the body plus the contribution of the last response header
  that is not filtered, or plus 20 when there is none. The contributions of the other
  headers are not part of the number.
\<close>

theorem bytes_down_last_header:
  assumes "request_calls (fst (proxy_request frh fresph vb ua prx self)) = [(m, u, hs, b)]"
    and "request prx m u hs b = Inr resp"
  shows "bytes_down_calls (fst (proxy_request frh fresph vb ua prx self)) =
     [(if filter (kept fresph) (headers resp) = [] then 20
       else header_len (last (filter (kept fresph) (headers resp))))
      + length (content resp)]"
  using assms
  by (auto simp add: proxy_request_fst proxy_request_body_run request_calls_append
        bytes_down_calls_append split: sum.splits if_splits)

lemma upper_POST: "upper ''POST'' = ''POST''"
  by code_simp

lemma upper_GET: "upper ''GET'' = ''GET''"
  by code_simp

text \<open>A POST passes its body, a GET passes \<open>None\<close>.\<close>

theorem request_body_iff_not_GET_witness:
  "(\<exists>hs. request_calls (fst (proxy_request {''proxy-connection''} {''transfer-encoding''}
            False [] serving_proxy post_handler)) =
          [(''POST'', ''http://example.com/form'', hs, Some ''a=1'')]) \<and>
   (\<exists>hs. request_calls (fst (proxy_request {''proxy-connection''} {''transfer-encoding''}
            False [] serving_proxy get_handler)) =
          [(''GET'', ''http://example.com/form'', hs, None)])"
  using request_body_iff_not_GET [of "{''proxy-connection''}" "{''transfer-encoding''}"
      False "[]" serving_proxy post_handler]
    request_body_iff_not_GET [of "{''proxy-connection''}" "{''transfer-encoding''}"
      False "[]" serving_proxy get_handler]
  by (simp add: post_handler_def get_handler_def upper_POST upper_GET)

text \<open>
  The POST example: \<open>proxy-connection\<close> is dropped on the way up and
  \<open>transfer-encoding\<close> on the way down.
\<close>

theorem headers_filtered_witness:
  "distinct (map fst (self_headers post_handler)) \<and>
   sent_headers (fst (proxy_request {''proxy-connection''} {''transfer-encoding''}
       False [] serving_proxy post_handler)) =
     [(''content-type'', ''text/html''), (''etag'', ''abc''), (''Proxy-Connection'', ''close'')] \<and>
   (\<exists>m u hs b. request_calls (fst (proxy_request {''proxy-connection''} {''transfer-encoding''}
       False [] serving_proxy post_handler)) = [(m, u, hs, b)] \<and>
     map_of hs = [''host'' \<mapsto> ''example.com'', ''Connection'' \<mapsto> ''close''])"
proof -
  have d: "distinct (map fst (self_headers post_handler))"
    by (simp add: post_handler_def)
  have r: "map_of (self_headers post_handler) |` (- {''proxy-connection''}) =
      [''host'' \<mapsto> ''example.com'']"
    by (auto simp: post_handler_def restrict_map_def fun_eq_iff)
  from headers_filtered [OF d, of "{''proxy-connection''}" "{''transfer-encoding''}"
      False "[]" serving_proxy]
  show ?thesis
    using d by (auto simp: r serving_proxy_def page_def kept_def)
qed

theorem bytes_up_before_bytes_down_after_witness:
  "precedes is_record_bytes_up is_proxy_request
     (fst (proxy_request {''proxy-connection''} {''transfer-encoding''} True
        [] serving_proxy post_handler)) \<and>
   precedes is_wfile_write is_record_bytes_down
     (fst (proxy_request {''proxy-connection''} {''transfer-encoding''} True
        [] serving_proxy post_handler)) \<and>
   snd (proxy_request {''proxy-connection''} {''transfer-encoding''} True
        [] serving_proxy post_handler) = None \<and>
   list_ex is_record_bytes_down
     (fst (proxy_request {''proxy-connection''} {''transfer-encoding''} True
        [] serving_proxy post_handler))"
proof -
  have n: "snd (proxy_request {''proxy-connection''} {''transfer-encoding''} True
        [] serving_proxy post_handler) = None"
    by (simp add: proxy_request_snd proxy_request_body_run serving_proxy_def)
  with bytes_up_before_bytes_down_after [of "{''proxy-connection''}" "{''transfer-encoding''}"
      True "[]" serving_proxy post_handler]
  show ?thesis by simp
qed

text \<open>
  The page has the unfiltered headers \<open>content-type\<close> (25) and \<open>etag\<close> (11) and a body
  of 5 bytes: the number recorded is 11 + 5, not 20 + 25 + 11 + 5.
\<close>

theorem bytes_down_last_header_witness:
  "(\<exists>hs. request_calls (fst (proxy_request {''proxy-connection''} {''transfer-encoding''}
       False [] serving_proxy post_handler)) =
       [(''POST'', ''http://example.com/form'', hs, Some ''a=1'')] \<and>
     request serving_proxy ''POST'' ''http://example.com/form'' hs (Some ''a=1'') = Inr page) \<and>
   bytes_down_calls (fst (proxy_request {''proxy-connection''} {''transfer-encoding''}
       False [] serving_proxy post_handler)) = [16]"
proof -
  obtain hs where c: "request_calls (fst (proxy_request {''proxy-connection''}
       {''transfer-encoding''} False [] serving_proxy post_handler)) =
       [(''POST'', ''http://example.com/form'', hs, Some ''a=1'')]"
    by (simp add: proxy_request_fst proxy_request_body_run request_calls_append
          post_handler_def upper_POST serving_proxy_def)
  have r: "request serving_proxy ''POST'' ''http://example.com/form'' hs (Some ''a=1'') = Inr page"
    by (simp add: serving_proxy_def)
  from bytes_down_last_header [OF c r] c r show ?thesis
    by (auto simp: page_def kept_def header_len_def)
qed

lemma case_two_pieces:
  "length xs \<noteq> 2 \<Longrightarrow> (case xs of [a, b] \<Rightarrow> f a b | _ \<Rightarrow> d) = d"
  by (auto split: list.splits)

text \<open>
  C3. When the handler has called \<open>connect(h, p)\<close> and the call raised, the handler
  answers with \<open>send_error(520)\<close>, never calls \<open>stream\<close> and never sends the status 200.
\<close>

theorem connect_failure_520:
  assumes "ProxyConnect h p \<in> set (fst (connect_request vb prx self))"
    and "connect prx h p = Inl e"
  shows "SendError 520 \<in> set (fst (connect_request vb prx self)) \<and>
         \<not> list_ex is_proxy_stream (fst (connect_request vb prx self)) \<and>
         SendResponse 200 \<notin> set (fst (connect_request vb prx self))"
  using assms
  by (auto simp: connect_request_def Let_def split: list.splits sum.splits option.splits if_splits)

theorem connect_failure_520_witness:
  "ProxyConnect ''example.com'' ''443'' \<in> set (fst (connect_request False refusing_proxy connect_handler)) \<and>
   connect refusing_proxy ''example.com'' ''443'' = Inl ''refused'' \<and>
   SendError 520 \<in> set (fst (connect_request False refusing_proxy connect_handler)) \<and>
   \<not> list_ex is_proxy_stream (fst (connect_request False refusing_proxy connect_handler)) \<and>
   SendResponse 200 \<notin> set (fst (connect_request False refusing_proxy connect_handler))"
proof -
  have c: "ProxyConnect ''example.com'' ''443'' \<in>
      set (fst (connect_request False refusing_proxy connect_handler))"
    by (simp add: connect_request_def connect_handler_def refusing_proxy_def)
  have r: "connect refusing_proxy ''example.com'' ''443'' = Inl ''refused''"
    by (simp add: refusing_proxy_def)
  from connect_failure_520 [OF c r] c r show ?thesis by simp
qed

text \<open>
  C10. When the path of a CONNECT request does not contain exactly one colon, the method
  ends with the ValueError of the unpacking: \<open>connect\<close> is not called, and neither
  \<open>send_error\<close> nor \<open>send_response\<close> is.
\<close>

theorem connect_bad_path_raises:
  assumes "count_list (self_path self) CHR '':'' \<noteq> 1"
  shows "snd (connect_request vb prx self) = Some ValueError \<and>
         \<not> list_ex is_proxy_connect (fst (connect_request vb prx self)) \<and>
         \<not> list_ex is_send_error (fst (connect_request vb prx self)) \<and>
         \<not> list_ex is_send_response (fst (connect_request vb prx self))"
proof -
  from assms have "length (split_str CHR '':'' (self_path self)) \<noteq> 2"
    by (simp add: length_split_str)
  then have "connect_request vb prx self = ((if vb then [PrintRequest] else []), Some ValueError)"
    unfolding connect_request_def Let_def by (rule case_two_pieces)
  then show ?thesis by simp
qed

theorem connect_bad_path_raises_witness:
  "count_list (self_path bare_connect_handler) CHR '':'' \<noteq> 1 \<and>
   count_list (self_path ipv6_connect_handler) CHR '':'' \<noteq> 1 \<and>
   connect_request False serving_proxy bare_connect_handler = ([], Some ValueError) \<and>
   connect_request False serving_proxy ipv6_connect_handler = ([], Some ValueError)"
proof -
  have a: "count_list (self_path bare_connect_handler) CHR '':'' \<noteq> 1"
    by (simp add: bare_connect_handler_def connect_handler_def)
  have b: "count_list (self_path ipv6_connect_handler) CHR '':'' \<noteq> 1"
    by (simp add: ipv6_connect_handler_def connect_handler_def)
  from connect_bad_path_raises [OF a, of False serving_proxy]
    connect_bad_path_raises [OF b, of False serving_proxy] a b
  show ?thesis
    by (simp add: connect_request_def bare_connect_handler_def ipv6_connect_handler_def
          connect_handler_def)
qed




lemma apply_opt_functions:
  "apply_opt opt a = Inr a' \<Longrightarrow> \<exists>fs. functions a' = functions a @ fs"
  by (cases opt) (auto split: if_splits)

lemma parse_opts_functions:
  "parse_opts opts a = Inr a' \<Longrightarrow> \<exists>fs. functions a' = functions a @ fs"
proof (induction opts arbitrary: a)
  case Nil
  then show ?case by simp
next
  case (Cons opt opts)
  then obtain a1 where a1: "apply_opt opt a = Inr a1" and rest: "parse_opts opts a1 = Inr a'"
    by (auto split: sum.splits)
  from apply_opt_functions [OF a1] obtain fs1 where "functions a1 = functions a @ fs1" ..
  moreover from Cons.IH [OF rest] obtain fs2 where "functions a' = functions a1 @ fs2" ..
  ultimately show ?case by simp
qed

lemma build_lambda_proxy_ok:
  "functions a \<noteq> [] \<Longrightarrow> \<exists>printed prx. build_lambda_proxy a st = (printed, Inr prx) \<and>
      constructed_s3Bucket (requestProxy prx) = Some (s3Bucket a)"
  by (simp add: build_lambda_proxy_def Let_def)

lemma build_local_proxy_ok:
  "\<exists>printed prx. build_local_proxy a st = (printed, Inr prx)"
  by (simp add: build_local_proxy_def Let_def)

text \<open>
  C6. When the proxy does not run locally and the list of functions is empty, \<open>main\<close>
  ends with \<open>SystemExit\<close> of a code other than 0, and neither constructs nor starts the
  listener.
\<close>

theorem no_functions_exits:
  assumes "\<not> runLocal a" and "functions a = []"
  shows "\<exists>code. snd (main st h p a) = Some (SystemExit code) \<and> code \<noteq> 0 \<and>
           \<not> list_ex is_listener_event (fst (main st h p a))"
  using assms by (simp add: main_def build_lambda_proxy_def Let_def)

theorem no_functions_exits_witness:
  "\<not> runLocal (default_args\<lparr>functions := []\<rparr>) \<and>
   functions (default_args\<lparr>functions := []\<rparr>) = [] \<and>
   main () ''localhost'' 1080 (default_args\<lparr>functions := []\<rparr>) =
     ([RegisterModel ''proxy'', Print ''Configuring proxy'',
       Print ''  Running the proxy with lambda'', Print ''No functions specified''],
      Some (SystemExit (- 1)))"
proof -
  have a: "\<not> runLocal (default_args\<lparr>functions := []\<rparr>)"
    by (simp add: default_args_def)
  have b: "functions (default_args\<lparr>functions := []\<rparr>) = []"
    by simp
  from no_functions_exits [OF a b, of "()" "''localhost''" 1080] a b show ?thesis
    by (simp add: main_def build_lambda_proxy_def Let_def)
qed

text \<open>
  C9. For every command line the parser accepts, the list of functions of the namespace
  is not empty; \<open>build_lambda_proxy\<close> then returns a proxy rather than exiting, and the
  script reaches \<open>serve_forever\<close> without an exception.
\<close>

theorem parsed_functions_nonempty:
  assumes "get_args opts = Inr a"
  shows "functions a \<noteq> [] \<and>
         (\<exists>printed prx. build_lambda_proxy a st = (printed, Inr prx)) \<and>
         snd (script st opts) = None"
proof -
  from assms parse_opts_functions [of opts default_args a]
  have ne: "functions a \<noteq> []"
    by (auto simp: get_args_def default_args_def)
  from build_lambda_proxy_ok [OF ne, of st]
  obtain printed prx where b: "build_lambda_proxy a st = (printed, Inr prx)" by blast
  from build_local_proxy_ok [of a st]
  obtain printed' prx' where l: "build_local_proxy a st = (printed', Inr prx')" by blast
  have "snd (main st (host a) (port a) a) = None"
    by (simp add: main_def b l)
  with assms ne b show ?thesis by (simp add: script_def)
qed

theorem parsed_functions_nonempty_witness:
  "get_args [OptFunction ''f1'', OptLambdaType ''short'', OptFunction ''f2''] =
     Inr (default_args\<lparr>functions := [''simple-http-proxy'', ''f1'', ''f2''],
                       lambdaType := ''short''\<rparr>) \<and>
   functions (default_args\<lparr>functions := [''simple-http-proxy'', ''f1'', ''f2''],
                           lambdaType := ''short''\<rparr>) \<noteq> [] \<and>
   snd (script () [OptFunction ''f1'', OptLambdaType ''short'', OptFunction ''f2'']) = None"
proof -
  have g: "get_args [OptFunction ''f1'', OptLambdaType ''short'', OptFunction ''f2''] =
     Inr (default_args\<lparr>functions := [''simple-http-proxy'', ''f1'', ''f2''],
                       lambdaType := ''short''\<rparr>)"
    by (simp add: get_args_def default_args_def)
  from parsed_functions_nonempty [OF g, of "()"] g show ?thesis by simp
qed

text \<open>
  C5, as amended. The large-payload transport choice is passed to no constructor: neither
  what \<open>build_lambda_proxy\<close> returns nor what \<open>main\<close> does depends on it. The s3 bucket
  option is passed: whichever lambda proxy is constructed, the \<open>s3Bucket\<close> argument of
  its constructor call is the option's value.
\<close>

theorem large_transport_not_passed:
  "build_lambda_proxy (a\<lparr>largeTransport := t\<rparr>) st = build_lambda_proxy a st \<and>
   main st h p (a\<lparr>largeTransport := t\<rparr>) = main st h p a \<and>
   (functions a \<noteq> [] \<longrightarrow>
      (\<exists>printed prx. build_lambda_proxy a st = (printed, Inr prx) \<and>
         constructed_s3Bucket (requestProxy prx) = Some (s3Bucket a)))"
proof (intro conjI)
  show "build_lambda_proxy (a\<lparr>largeTransport := t\<rparr>) st = build_lambda_proxy a st"
    by (simp add: build_lambda_proxy_def Let_def)
  show "main st h p (a\<lparr>largeTransport := t\<rparr>) = main st h p a"
    by (simp add: main_def build_lambda_proxy_def build_local_proxy_def Let_def)
  show "functions a \<noteq> [] \<longrightarrow>
      (\<exists>printed prx. build_lambda_proxy a st = (printed, Inr prx) \<and>
         constructed_s3Bucket (requestProxy prx) = Some (s3Bucket a))"
    using build_lambda_proxy_ok [of a st] by blast
qed

theorem large_transport_not_passed_witness:
  "build_lambda_proxy (default_args\<lparr>largeTransport := ''s3''\<rparr>) () =
     build_lambda_proxy default_args () \<and>
   functions default_args \<noteq> [] \<and>
   build_lambda_proxy default_args () =
     ([''  Running the proxy with lambda'', ''  Using functions: simple-http-proxy'',
       ''  Using hybrid lambdas'', ''  HTTPS will use the local proxy''],
      Inr (ProxyInstance (HybridLambdaProxy [''simple-http-proxy''] 10 None () False)
             (LocalProxy ())))"
  using large_transport_not_passed [where a = default_args and t = "''s3''" and st = "()"]
  by (simp add: build_lambda_proxy_def default_args_def DEFAULT_MAX_LAMBDAS_def)

text \<open>
  C5 as stated fails: with \<open>--s3-bucket my-bucket\<close> the constructor of the lambda proxy
  receives the bucket, and the proxy built differs from the one built without the option.
\<close>

theorem s3Bucket_is_passed:
  "get_args [OptLambdaType ''short'', OptS3Bucket ''my-bucket''] =
     Inr (default_args\<lparr>lambdaType := ''short'', s3Bucket := Some ''my-bucket''\<rparr>) \<and>
   snd (build_lambda_proxy
          (default_args\<lparr>lambdaType := ''short'', s3Bucket := Some ''my-bucket''\<rparr>) ()) =
     Inr (ProxyInstance
            (ShortLivedLambdaProxy [''simple-http-proxy''] 10 (Some ''my-bucket'') ())
            (LocalProxy ())) \<and>
   snd (build_lambda_proxy
          (default_args\<lparr>lambdaType := ''short'', s3Bucket := Some ''my-bucket''\<rparr>) ()) \<noteq>
   snd (build_lambda_proxy (default_args\<lparr>lambdaType := ''short''\<rparr>) ())"
  by (simp add: get_args_def build_lambda_proxy_def default_args_def DEFAULT_MAX_LAMBDAS_def)

end
